theory Spec2Isabelle
  imports Main "HOL-Library.AList"
begin

section \<open>Python values\<close>

text \<open>
  The loader reads its records from JSON and CSV files, so a field of a record can hold
  any value that \<^verbatim>\<open>json.load\<close> or \<^verbatim>\<open>csv.DictReader\<close> produces. A finite
  float is kept as the pair \<open>(m, e)\<close> standing for \<open>m * 2 ^ e\<close>; the three
  special floats are constructors of their own (\<^verbatim>\<open>json.load\<close> reads
  \<^verbatim>\<open>Infinity\<close>, \<^verbatim>\<open>NaN\<close> and also \<^verbatim>\<open>1e999\<close>, which rounds to infinity).
  A string is the list of its characters, each a code point below 256; a string with
  a character beyond that range has no counterpart here.
  A dict is an association list with string keys in insertion order:
  \<open>map_of\<close> is the lookup, \<open>AList.update\<close> is item assignment (an existing key
  keeps its place, a new key goes to the end) and \<open>AList.delete\<close> removes a key.
\<close>

datatype pyfloat = Finite int int | PosInf | NegInf | NaN

datatype pyval =
    PNone
  | PBool bool
  | PInt int
  | PFloat pyfloat
  | PStr string
  | PList "pyval list"
  | PDict "(string \<times> pyval) list"

type_synonym pydict = "(string \<times> pyval) list"

datatype py_error = ValueError | TypeError | OverflowError | KeyError
  | AttributeError | FloodWaitError int | ChannelPrivateError | UsernameNotOccupiedError
  | ImportError | DagsterInvalidDefinitionError | OtherException string

fun isinstance_dict :: "pyval \<Rightarrow> bool" where
  "isinstance_dict (PDict r) = True"
| "isinstance_dict v = False"

subsection \<open>The builtin \<^verbatim>\<open>int()\<close>\<close>

text \<open>
  On a string \<^verbatim>\<open>int()\<close> strips white space, reads an optional sign and then decimal
  digits, where single underscores may stand between digits. The white space that it
  strips is the ASCII white space (tab, line feed, vertical tab, form feed, carriage
  return, space) and the white space beyond ASCII, which below 256 is the next-line
  character 133 and the no-break space 160; the separators 28 to 31 are not stripped.
  No character from 128 to 255 is a decimal digit. A numeral of more than 4300 digits,
  the default limit of the interpreter, raises \<^verbatim>\<open>ValueError\<close> as an ill-formed one
  does.
\<close>

definition py_isspace :: "char \<Rightarrow> bool" where
  "py_isspace c = ((of_char c :: nat) \<in> set [9, 10, 11, 12, 13, 32, 133, 160])"

definition py_isdigit :: "char \<Rightarrow> bool" where
  "py_isdigit c = (48 \<le> (of_char c :: nat) \<and> (of_char c :: nat) \<le> 57)"

definition digit_val :: "char \<Rightarrow> nat" where
  "digit_val c = of_char c - 48"

definition py_strip :: "string \<Rightarrow> string" where
  "py_strip s = rev (dropWhile py_isspace (rev (dropWhile py_isspace s)))"

definition int_max_str_digits :: nat where
  "int_max_str_digits = 4300"

fun parse_digits :: "bool \<Rightarrow> nat \<Rightarrow> string \<Rightarrow> nat option" where
  "parse_digits prev acc [] = (if prev then Some acc else None)"
| "parse_digits prev acc (c # cs) =
     (if py_isdigit c then parse_digits True (10 * acc + digit_val c) cs
      else if c = CHR ''_'' \<and> prev then parse_digits False acc cs
      else None)"

definition parse_numeral :: "string \<Rightarrow> nat option" where
  "parse_numeral ds =
     (if int_max_str_digits < length (filter py_isdigit ds) then None
      else parse_digits False 0 ds)"

definition int_of_str :: "string \<Rightarrow> int option" where
  "int_of_str s =
     (case py_strip s of
        [] \<Rightarrow> None
      | c # cs \<Rightarrow>
          if c = CHR ''-'' then map_option (\<lambda>n. - int n) (parse_numeral cs)
          else if c = CHR ''+'' then map_option int (parse_numeral cs)
          else map_option int (parse_numeral (c # cs)))"

text \<open>Truncation of the finite float \<open>m * 2 ^ e\<close> towards zero.\<close>

definition trunc_float :: "int \<Rightarrow> int \<Rightarrow> int" where
  "trunc_float m e =
     (if 0 \<le> e then m * 2 ^ nat e
      else if 0 \<le> m then m div 2 ^ nat (- e)
      else - ((- m) div 2 ^ nat (- e)))"

fun py_int :: "pyval \<Rightarrow> py_error + int" where
  "py_int PNone = Inl TypeError"
| "py_int (PBool b) = Inr (if b then 1 else 0)"
| "py_int (PInt i) = Inr i"
| "py_int (PFloat (Finite m e)) = Inr (trunc_float m e)"
| "py_int (PFloat NaN) = Inl ValueError"
| "py_int (PFloat PosInf) = Inl OverflowError"
| "py_int (PFloat NegInf) = Inl OverflowError"
| "py_int (PStr s) = (case int_of_str s of None \<Rightarrow> Inl ValueError | Some i \<Rightarrow> Inr i)"
| "py_int (PList xs) = Inl TypeError"
| "py_int (PDict r) = Inl TypeError"

section \<open>The record normalizer (scripts/load\_raw\_to\_postgres.py)\<close>

text \<open>A loop whose body may raise: the first exception ends the loop.\<close>

fun for_each :: "('a \<Rightarrow> 's \<Rightarrow> py_error + 's) \<Rightarrow> 'a list \<Rightarrow> 's \<Rightarrow> py_error + 's" where
  "for_each body [] s = Inr s"
| "for_each body (x # xs) s =
     (case body x s of Inl e \<Rightarrow> Inl e | Inr s' \<Rightarrow> for_each body xs s')"

definition mapping :: "(string \<times> string) list" where
  "mapping = [(''text'', ''message_text''), (''file_path'', ''media_file''),
              (''date'', ''message_date''), (''url'', ''message_url'')]"

definition required_keys :: "string list" where
  "required_keys = [''message_id'', ''channel_id'', ''channel_username'', ''channel_title'',
     ''message_date'', ''message_text'', ''views'', ''forwards'', ''replies'',
     ''media_type'', ''media_file'', ''message_url'', ''scraped_at'']"

definition int_fields :: "string list" where
  "int_fields = [''views'', ''forwards'', ''replies'', ''channel_id'', ''message_id'']"

definition ts_fields :: "string list" where
  "ts_fields = [''message_date'', ''scraped_at'']"

text \<open>\<^verbatim>\<open>if k in record: record[v] = record.pop(k)\<close>\<close>

definition rename_key :: "string \<times> string \<Rightarrow> pydict \<Rightarrow> pydict" where
  "rename_key kv record =
     (case map_of record (fst kv) of
        None \<Rightarrow> record
      | Some x \<Rightarrow> AList.update (snd kv) x (AList.delete (fst kv) record))"

text \<open>\<^verbatim>\<open>if key not in record or record[key] is None: record[key] = None\<close>\<close>

definition ensure_key :: "string \<Rightarrow> pydict \<Rightarrow> pydict" where
  "ensure_key key record =
     (case map_of record key of
        None \<Rightarrow> AList.update key PNone record
      | Some x \<Rightarrow> if x = PNone then AList.update key PNone record else record)"

text \<open>
  The conversion of one numeric field. Reading \<^verbatim>\<open>record[int_field]\<close> raises
  \<^verbatim>\<open>KeyError\<close> on a missing key; the handler around \<^verbatim>\<open>int()\<close> catches
  \<^verbatim>\<open>ValueError\<close> and \<^verbatim>\<open>TypeError\<close> only, so any other exception leaves the function.
\<close>

definition convert_int_field :: "string \<Rightarrow> pydict \<Rightarrow> py_error + pydict" where
  "convert_int_field int_field record =
     (case map_of record int_field of
        None \<Rightarrow> Inl KeyError
      | Some x \<Rightarrow>
          if x \<noteq> PNone then
            (case py_int x of
               Inr i \<Rightarrow> Inr (AList.update int_field (PInt i) record)
             | Inl ValueError \<Rightarrow> Inr (AList.update int_field (PInt 0) record)
             | Inl TypeError \<Rightarrow> Inr (AList.update int_field (PInt 0) record)
             | Inl e \<Rightarrow> Inl e)
          else Inr (AList.update int_field (PInt 0) record))"

text \<open>\<^verbatim>\<open>if record[ts_field] == "": record[ts_field] = None\<close>\<close>

definition blank_ts_field :: "string \<Rightarrow> pydict \<Rightarrow> py_error + pydict" where
  "blank_ts_field ts_field record =
     (case map_of record ts_field of
        None \<Rightarrow> Inl KeyError
      | Some x \<Rightarrow> Inr (if x = PStr [] then AList.update ts_field PNone record else record))"

definition normalize_dict :: "pydict \<Rightarrow> py_error + pydict" where
  "normalize_dict record =
     (case for_each convert_int_field int_fields
             (fold ensure_key required_keys (fold rename_key mapping record)) of
        Inl e \<Rightarrow> Inl e
      | Inr record' \<Rightarrow> for_each blank_ts_field ts_fields record')"

fun normalize_record :: "pyval \<Rightarrow> py_error + pyval" where
  "normalize_record (PDict record) =
     (case normalize_dict record of Inl e \<Rightarrow> Inl e | Inr r \<Rightarrow> Inr (PDict r))"
| "normalize_record v = Inr (PDict [])"

text \<open>
  Following the words of the specification: an integer field is coerced by best-effort
  integer parsing, and an absent field, a null field and a parse failure yield \<open>0\<close>.
\<close>

definition best_effort_int :: "pyval option \<Rightarrow> int" where
  "best_effort_int v =
     (case v of
        None \<Rightarrow> 0
      | Some x \<Rightarrow> if x = PNone then 0 else (case py_int x of Inr i \<Rightarrow> i | Inl e \<Rightarrow> 0))"

section \<open>The idempotent loader (scripts/load\_raw\_to\_postgres.py)\<close>

text \<open>
  The table \<^verbatim>\<open>raw.telegram_messages\<close> is the list of its rows in insertion order. The
  statement \<^verbatim>\<open>SQL\<close> binds thirteen named parameters, \<^verbatim>\<open>%(message_id)s\<close> to
  \<^verbatim>\<open>%(scraped_at)s\<close>, from the record: a record without one of these keys raises
  \<^verbatim>\<open>KeyError\<close>, and keys the statement does not name are ignored.
\<close>

type_synonym table = "pydict list"

definition sql_columns :: "string list" where
  "sql_columns = [''message_id'', ''channel_id'', ''channel_username'', ''channel_title'',
     ''message_date'', ''message_text'', ''views'', ''forwards'', ''replies'',
     ''media_type'', ''media_file'', ''message_url'', ''scraped_at'']"

fun bind_params :: "string list \<Rightarrow> pydict \<Rightarrow> py_error + pydict" where
  "bind_params [] record = Inr []"
| "bind_params (c # cs) record =
     (case map_of record c of
        None \<Rightarrow> Inl KeyError
      | Some v \<Rightarrow>
          (case bind_params cs record of Inl e \<Rightarrow> Inl e | Inr row \<Rightarrow> Inr ((c, v) # row)))"

text \<open>
  \<^verbatim>\<open>ON CONFLICT (message_id) DO NOTHING\<close>: the row is dropped when a row of the table
  has the same \<^verbatim>\<open>message_id\<close>. A null \<^verbatim>\<open>message_id\<close> conflicts with nothing.
\<close>

definition conflicts :: "table \<Rightarrow> pydict \<Rightarrow> bool" where
  "conflicts tbl row =
     (map_of row ''message_id'' \<noteq> Some PNone \<and>
      list_ex (\<lambda>r. map_of r ''message_id'' = map_of row ''message_id'') tbl)"

definition execute_sql :: "pydict \<Rightarrow> table \<Rightarrow> py_error + table" where
  "execute_sql record tbl =
     (case bind_params sql_columns record of
        Inl e \<Rightarrow> Inl e
      | Inr row \<Rightarrow> Inr (if conflicts tbl row then tbl else tbl @ [row]))"

text \<open>
  \<^verbatim>\<open>execute_batch(cur, SQL, records, page_size=1000)\<close> runs the statement once per
  record, in order, inside one transaction.
\<close>

definition execute_batch :: "table \<Rightarrow> pydict list \<Rightarrow> py_error + table" where
  "execute_batch tbl records = for_each execute_sql records tbl"

text \<open>
  \<^verbatim>\<open>main\<close>, from the records that \<^verbatim>\<open>load_records\<close> returned. The result is the
  committed table and the number that the last line prints (\<open>None\<close> when the
  function returns early on an empty batch). An exception leaves before the commit.
\<close>

definition main :: "table \<Rightarrow> pydict list \<Rightarrow> py_error + table \<times> nat option" where
  "main tbl records =
     (if records = [] then Inr (tbl, None)
      else case execute_batch tbl records of
             Inl e \<Rightarrow> Inl e
           | Inr tbl' \<Rightarrow> Inr (tbl', Some (length records)))"

text \<open>What a normalized record is to the loader: every column bound, an integer key.\<close>

definition is_normalized :: "pydict \<Rightarrow> bool" where
  "is_normalized record =
     (list_all (\<lambda>k. map_of record k \<noteq> None) required_keys \<and>
      (case map_of record ''message_id'' of Some (PInt i) \<Rightarrow> True | _ \<Rightarrow> False))"

text \<open>The \<^verbatim>\<open>message_id\<close> column of the table.\<close>

definition message_ids :: "table \<Rightarrow> pyval option list" where
  "message_ids tbl = map (\<lambda>r. map_of r ''message_id'') tbl"

text \<open>
  The record that the normalizer returns on \<^verbatim>\<open>{"message_id": i}\<close>; the examples of
  the loader are built from it.
\<close>

definition message_row :: "int \<Rightarrow> pydict" where
  "message_row i =
     [(''message_id'', PInt i), (''channel_id'', PInt 0), (''channel_username'', PNone),
      (''channel_title'', PNone), (''message_date'', PNone), (''message_text'', PNone),
      (''views'', PInt 0), (''forwards'', PInt 0), (''replies'', PInt 0),
      (''media_type'', PNone), (''media_file'', PNone), (''message_url'', PNone),
      (''scraped_at'', PNone)]"

section \<open>The partitioned store writer (src/datalake.py)\<close>

text \<open>\<^verbatim>\<open>os.path.join\<close> on POSIX paths.\<close>

definition path_join2 :: "string \<Rightarrow> string \<Rightarrow> string" where
  "path_join2 a b =
     (if b \<noteq> [] \<and> hd b = CHR ''/'' then b
      else if a = [] \<or> last a = CHR ''/'' then a @ b
      else a @ ''/'' @ b)"

definition path_join :: "string \<Rightarrow> string list \<Rightarrow> string" where
  "path_join a ps = foldl path_join2 a ps"

definition raw_partition_dir :: "string \<Rightarrow> string \<Rightarrow> string" where
  "raw_partition_dir base_path date_str =
     path_join base_path [''raw'', ''telegram_messages'', date_str]"

text \<open>
  The store: the directories that exist and the JSON document held by each file.
\<close>

record filesystem =
  dirs :: "string set"
  files :: "string \<rightharpoonup> pyval"

definition ensure_dir :: "string \<Rightarrow> filesystem \<Rightarrow> filesystem" where
  "ensure_dir path fs = fs\<lparr>dirs := insert path (dirs fs)\<rparr>"

text \<open>
  \<^verbatim>\<open>channel_message_counts\<close> is a \<^verbatim>\<open>Dict[str, int]\<close>: the channels in insertion order,
  each with its count. \<^verbatim>\<open>payload.update(extra)\<close> assigns the items of \<^verbatim>\<open>extra\<close> in
  order; it runs only for a non-empty \<^verbatim>\<open>extra\<close>.
\<close>

definition counts_dict :: "(string \<times> int) list \<Rightarrow> pyval" where
  "counts_dict channel_message_counts =
     PDict (map (\<lambda>kv. (fst kv, PInt (snd kv))) channel_message_counts)"

definition dict_update :: "pydict \<Rightarrow> pydict \<Rightarrow> pydict" where
  "dict_update extra payload = fold (\<lambda>kv. AList.update (fst kv) (snd kv)) extra payload"

definition manifest_payload ::
  "string \<Rightarrow> string \<Rightarrow> (string \<times> int) list \<Rightarrow> pydict option \<Rightarrow> pydict" where
  "manifest_payload date_str now channel_message_counts extra =
     (let payload = [(''date'', PStr date_str), (''run_utc'', PStr now),
                     (''channels'', counts_dict channel_message_counts),
                     (''total_messages'', PInt (sum_list (map snd channel_message_counts)))]
      in case extra of
           None \<Rightarrow> payload
         | Some e \<Rightarrow> if e = [] then payload else dict_update e payload)"

definition write_manifest ::
  "filesystem \<Rightarrow> string \<Rightarrow> string \<Rightarrow> string \<Rightarrow> (string \<times> int) list \<Rightarrow> pydict option
     \<Rightarrow> string \<times> filesystem" where
  "write_manifest fs base_path date_str now channel_message_counts extra =
     (let fs1 = ensure_dir (raw_partition_dir base_path date_str) fs;
          payload = manifest_payload date_str now channel_message_counts extra;
          path = path_join (raw_partition_dir base_path date_str) [''_manifest.json'']
      in (path, fs1\<lparr>files := (files fs1)(path \<mapsto> PDict payload)\<rparr>))"

section \<open>The channel scraper (src/scraper.py)\<close>

text \<open>Delays are counted in milliseconds.\<close>

definition SCRAPE_LIMIT :: nat where
  "SCRAPE_LIMIT = 200"

definition MESSAGE_DELAY :: int where
  "MESSAGE_DELAY = 500"

definition CHANNEL_DELAY :: int where
  "CHANNEL_DELAY = 3000"

datatype MediaType = PHOTO | VIDEO | AUDIO | DOCUMENT | OTHER

fun media_type_value :: "MediaType \<Rightarrow> string" where
  "media_type_value PHOTO = ''photo''"
| "media_type_value VIDEO = ''video''"
| "media_type_value AUDIO = ''audio''"
| "media_type_value DOCUMENT = ''document''"
| "media_type_value OTHER = ''other''"

record TelegramMessage =
  message_id :: int
  channel_id :: int
  channel_username :: string
  channel_title :: string
  date :: string
  text' :: string
  views :: int
  forwards :: int
  replies :: int
  edit_date :: "string option"
  media_type :: "string option"
  file_path :: "string option"
  url :: string
  scraped_at :: string

text \<open>
  What the client hands to the scraper. A file name attribute without a name and a
  document media without a document stand for the malformed attributes on which the
  attribute access raises. The \<^verbatim>\<open>replies\<close> attribute of a post is missing (the
  access raises), \<^verbatim>\<open>None\<close>, or an object with a count. Dates are already in ISO
  format.
\<close>

datatype doc_attribute = DocumentAttributeFilename "string option" | OtherAttribute

datatype media =
    NoMedia
  | MessageMediaPhoto
  | MessageMediaDocument "doc_attribute list option"
  | OtherMedia

datatype replies_attr = RepliesRaises | RepliesNone | MessageReplies int

record post =
  msg_id :: int
  msg_date :: "string option"
  msg_text :: "string option"
  msg_views :: "int option"
  msg_forwards :: "int option"
  msg_replies :: replies_attr
  msg_edit_date :: "string option"
  msg_media :: media

record entity =
  ent_id :: int
  username :: "string option"
  title :: "string option"

text \<open>
  One step of the enumeration \<^verbatim>\<open>client.iter_messages\<close>: it yields a post or raises.
  The list ends where the enumeration ends.
\<close>

datatype iter_event = Yield post | Raise py_error

record client =
  get_entity :: "string \<Rightarrow> py_error + entity"
  iter_messages :: "entity \<Rightarrow> nat \<Rightarrow> iter_event list"
  client_download_media :: "media \<Rightarrow> string \<Rightarrow> py_error + string option"

definition sanitize_filename :: "string \<Rightarrow> string" where
  "sanitize_filename name =
     take 200 (map (\<lambda>c. if c \<in> set [CHR ''<'', CHR ''>'', CHR '':'', CHR 0x22, CHR ''/'',
                                        CHR 0x5C, CHR ''|'', CHR ''?'', CHR ''*'']
                         then CHR ''_'' else c) name)"

fun extract_replies :: "replies_attr \<Rightarrow> int" where
  "extract_replies RepliesRaises = 0"
| "extract_replies RepliesNone = 0"
| "extract_replies (MessageReplies n) = n"

text \<open>
  \<^verbatim>\<open>str.lower()\<close> below 256: the capitals A to Z and the capitals 192 to 222, without
  the multiplication sign 215, move up by 32.
\<close>

definition is_upper :: "char \<Rightarrow> bool" where
  "is_upper c =
     ((65 \<le> (of_char c :: nat) \<and> (of_char c :: nat) \<le> 90) \<or>
      (192 \<le> (of_char c :: nat) \<and> (of_char c :: nat) \<le> 222 \<and> (of_char c :: nat) \<noteq> 215))"

definition py_lower :: "string \<Rightarrow> string" where
  "py_lower s = map (\<lambda>c. if is_upper c then char_of ((of_char c :: nat) + 32) else c) s"

definition endswith :: "string \<Rightarrow> string list \<Rightarrow> bool" where
  "endswith name sufs = list_ex (\<lambda>suf. length suf \<le> length name \<and>
                                       drop (length name - length suf) name = suf) sufs"

fun scan_attributes :: "doc_attribute list \<Rightarrow> py_error + MediaType option" where
  "scan_attributes [] = Inr (Some DOCUMENT)"
| "scan_attributes (OtherAttribute # attrs) = scan_attributes attrs"
| "scan_attributes (DocumentAttributeFilename None # attrs) = Inl AttributeError"
| "scan_attributes (DocumentAttributeFilename (Some file_name) # attrs) =
     (let name = py_lower file_name
      in if endswith name [''.mp4'', ''.mkv''] then Inr (Some VIDEO)
         else if endswith name [''.mp3'', ''.wav''] then Inr (Some AUDIO)
         else scan_attributes attrs)"

fun detect_media_type :: "media \<Rightarrow> py_error + MediaType option" where
  "detect_media_type MessageMediaPhoto = Inr (Some PHOTO)"
| "detect_media_type (MessageMediaDocument None) = Inl AttributeError"
| "detect_media_type (MessageMediaDocument (Some attrs)) = scan_attributes attrs"
| "detect_media_type NoMedia = Inr None"
| "detect_media_type OtherMedia = Inr None"

text \<open>Any exception of the download is caught and gives \<^verbatim>\<open>None\<close>.\<close>

definition download_media :: "client \<Rightarrow> post \<Rightarrow> MediaType \<Rightarrow> string \<Rightarrow> string option" where
  "download_media c message mt out_dir =
     (if msg_media message = NoMedia then None
      else case client_download_media c (msg_media message) out_dir of
             Inl e \<Rightarrow> None
           | Inr path \<Rightarrow> path)"

text \<open>\<^verbatim>\<open>x or d\<close> on an optional string and on an optional integer.\<close>

fun or_str :: "string option \<Rightarrow> string \<Rightarrow> string" where
  "or_str None d = d"
| "or_str (Some s) d = (if s = [] then d else s)"

fun or_int :: "int option \<Rightarrow> int \<Rightarrow> int" where
  "or_int None d = d"
| "or_int (Some n) d = (if n = 0 then d else n)"

fun show_nat :: "nat \<Rightarrow> string" where
  "show_nat n = (if n < 10 then [char_of (48 + n)]
                 else show_nat (n div 10) @ [char_of (48 + n mod 10)])"

definition show_int :: "int \<Rightarrow> string" where
  "show_int i = (if i < 0 then CHR ''-'' # show_nat (nat (- i)) else show_nat (nat i))"

text \<open>
  The body of the loop over the posts of a channel, up to \<^verbatim>\<open>messages.append\<close>:
  the message built from one post, or the exception that the inner handler logs.
\<close>

definition build_message ::
  "client \<Rightarrow> string \<Rightarrow> entity \<Rightarrow> string \<Rightarrow> string \<Rightarrow> post \<Rightarrow> py_error + TelegramMessage" where
  "build_message c channel ent image_dir now msg =
     (case detect_media_type (msg_media msg) of
        Inl e \<Rightarrow> Inl e
      | Inr mt \<Rightarrow>
          Inr \<lparr> message_id = msg_id msg,
                channel_id = ent_id ent,
                channel_username = or_str (username ent) channel,
                channel_title = or_str (title ent) [],
                date = (case msg_date msg of None \<Rightarrow> [] | Some d \<Rightarrow> d),
                text' = or_str (msg_text msg) [],
                views = or_int (msg_views msg) 0,
                forwards = or_int (msg_forwards msg) 0,
                replies = extract_replies (msg_replies msg),
                edit_date = msg_edit_date msg,
                media_type = map_option media_type_value mt,
                file_path = (case mt of None \<Rightarrow> None
                             | Some t \<Rightarrow> download_media c msg t image_dir),
                url = (case username ent of
                         None \<Rightarrow> []
                       | Some u \<Rightarrow> if u = [] then []
                                   else ''https://t.me/'' @ u @ ''/'' @ show_int (msg_id msg)),
                scraped_at = now \<rparr>)"

text \<open>
  The state of one call of \<^verbatim>\<open>scrape_channel\<close>: the messages collected so far and the
  pauses taken, in order. The loop returns the exception that left it, if any: an
  exception of the enumeration itself is outside the inner handler.
  The clock is read once per message; \<open>now k\<close> is its reading at the \<open>k\<close>-th post.
\<close>

record scrape_state =
  messages :: "TelegramMessage list"
  slept :: "int list"

fun scrape_loop ::
  "client \<Rightarrow> string \<Rightarrow> entity \<Rightarrow> string \<Rightarrow> (nat \<Rightarrow> string) \<Rightarrow> nat \<Rightarrow> iter_event list
     \<Rightarrow> scrape_state \<Rightarrow> py_error option \<times> scrape_state" where
  "scrape_loop c channel ent image_dir now k [] st = (None, st)"
| "scrape_loop c channel ent image_dir now k (Raise e # evs) st = (Some e, st)"
| "scrape_loop c channel ent image_dir now k (Yield msg # evs) st =
     (case build_message c channel ent image_dir (now k) msg of
        Inl e \<Rightarrow> scrape_loop c channel ent image_dir now (Suc k) evs st
      | Inr message \<Rightarrow>
          scrape_loop c channel ent image_dir now (Suc k) evs
            (st\<lparr>messages := messages st @ [message], slept := slept st @ [MESSAGE_DELAY]\<rparr>))"

text \<open>
  The handlers of \<^verbatim>\<open>scrape_channel\<close>: a flood wait sleeps and falls through to
  \<^verbatim>\<open>return messages\<close>, an inaccessible channel falls through as well, and any other
  exception leaves the function.
\<close>

fun handle_scrape_error :: "py_error \<Rightarrow> scrape_state \<Rightarrow> (py_error + TelegramMessage list) \<times> int list" where
  "handle_scrape_error (FloodWaitError seconds) st =
     (Inr (messages st), slept st @ [1000 * seconds])"
| "handle_scrape_error ChannelPrivateError st = (Inr (messages st), slept st)"
| "handle_scrape_error UsernameNotOccupiedError st = (Inr (messages st), slept st)"
| "handle_scrape_error e st = (Inl e, slept st)"

definition scrape_channel ::
  "client \<Rightarrow> string \<Rightarrow> string \<Rightarrow> (nat \<Rightarrow> string)
     \<Rightarrow> (py_error + TelegramMessage list) \<times> int list" where
  "scrape_channel c channel base_path now =
     (let st0 = \<lparr>messages = [], slept = []\<rparr>
      in case get_entity c channel of
           Inl e \<Rightarrow> handle_scrape_error e st0
         | Inr ent \<Rightarrow>
             (let image_dir = path_join base_path [''raw'', ''images'', sanitize_filename channel]
              in case scrape_loop c channel ent image_dir now 0
                        (iter_messages c ent SCRAPE_LIMIT) st0 of
                   (None, st) \<Rightarrow> (Inr (messages st), slept st)
                 | (Some e, st) \<Rightarrow> handle_scrape_error e st))"

text \<open>
  Inputs for the examples of the scraper: a post that carries nothing but its number and
  date, a channel entity without user name and title, and a client whose enumeration
  yields the posts \<open>before\<close>, then signals a flood wait, and would yield the posts
  \<open>after\<close> if it were asked again.
\<close>

definition plain_post :: "int \<Rightarrow> post" where
  "plain_post i =
     \<lparr> msg_id = i, msg_date = Some ''2026-01-16T10:00:00'', msg_text = None,
       msg_views = None, msg_forwards = None, msg_replies = RepliesRaises,
       msg_edit_date = None, msg_media = NoMedia \<rparr>"

definition untitled_entity :: entity where
  "untitled_entity = \<lparr> ent_id = 100, username = None, title = None \<rparr>"

definition throttled_client :: "int list \<Rightarrow> int \<Rightarrow> int list \<Rightarrow> client" where
  "throttled_client before seconds after =
     \<lparr> get_entity = (\<lambda>channel. Inr untitled_entity),
       iter_messages = (\<lambda>ent limit. map (\<lambda>i. Yield (plain_post i)) before
                          @ Raise (FloodWaitError seconds)
                          # map (\<lambda>i. Yield (plain_post i)) after),
       client_download_media = (\<lambda>m out_dir. Inr None) \<rparr>"

definition plain_message :: "int \<Rightarrow> string \<Rightarrow> string \<Rightarrow> TelegramMessage" where
  "plain_message i channel now =
     \<lparr> message_id = i, channel_id = 100, channel_username = channel, channel_title = [],
       date = ''2026-01-16T10:00:00'', text' = [], views = 0, forwards = 0, replies = 0,
       edit_date = None, media_type = None, file_path = None, url = [], scraped_at = now \<rparr>"

section \<open>The pipeline orchestrator (dagster\_pipeline/pipeline.py)\<close>

text \<open>
  A stage summary is the dict that the op returns. Everything an op reads from outside
  is a field of the environment: the flags set by the imports at module level, the
  process environment, the file system, the database, the sub-processes and the
  detector. The classes \<^verbatim>\<open>TelegramScraper\<close>, \<^verbatim>\<open>DataLoader\<close> and
  \<^verbatim>\<open>YOLODetector\<close> are imported from modules that do not define them, so what their
  methods do is a field of the environment as well.
  The Transform and the Enrich stage catch every exception of their body and keep only
  \<^verbatim>\<open>str(e)\<close>, so what can raise in there gives the message of its exception: a
  failing \<^verbatim>\<open>os.chdir\<close>, \<^verbatim>\<open>subprocess.run\<close>, detector or detection loader is the
  string that \<^verbatim>\<open>str(e)\<close> returns for it.
\<close>

record dataframe =
  df_len :: nat
  df_columns :: "string list"
  df_value_counts :: "string \<Rightarrow> pydict"
  df_head :: "nat \<Rightarrow> pyval"

record environment =
  HAS_SCRAPER :: bool
  HAS_LOADER :: bool
  HAS_YOLO :: bool
  PROJECT_ROOT :: string
  getenv :: "string \<Rightarrow> string option"
  scraper_run :: "py_error option"
  path_exists :: "string \<Rightarrow> bool"
  rglob_json :: "string \<Rightarrow> string list"
  read_json :: "string \<Rightarrow> py_error + pyval"
  get_connection :: "py_error option"
  load_to_raw :: "pyval \<Rightarrow> py_error + int"
  chdir :: "string \<Rightarrow> string option"
  subprocess_run :: "string list \<Rightarrow> string + int"
  process_directory :: "string \<Rightarrow> string + dataframe"
  load_yolo_results :: "string option"

definition dict_get :: "pydict \<Rightarrow> string \<Rightarrow> pyval \<Rightarrow> pyval" where
  "dict_get d k dflt = (case map_of d k of None \<Rightarrow> dflt | Some v \<Rightarrow> v)"

fun py_truthy :: "pyval \<Rightarrow> bool" where
  "py_truthy PNone = False"
| "py_truthy (PBool b) = b"
| "py_truthy (PInt i) = (i \<noteq> 0)"
| "py_truthy (PFloat (Finite m e)) = (m \<noteq> 0)"
| "py_truthy (PFloat f) = True"
| "py_truthy (PStr s) = (s \<noteq> [])"
| "py_truthy (PList xs) = (xs \<noteq> [])"
| "py_truthy (PDict r) = (r \<noteq> [])"

text \<open>\<^verbatim>\<open>v == 0\<close>\<close>

fun py_eq_zero :: "pyval \<Rightarrow> bool" where
  "py_eq_zero (PInt i) = (i = 0)"
| "py_eq_zero (PBool b) = (b = False)"
| "py_eq_zero (PFloat (Finite m e)) = (m = 0)"
| "py_eq_zero v = False"

fun join_with :: "string \<Rightarrow> string list \<Rightarrow> string" where
  "join_with sep [] = []"
| "join_with sep [x] = x"
| "join_with sep (x # y # ys) = x @ sep @ join_with sep (y # ys)"

definition repr_str_list :: "string list \<Rightarrow> string" where
  "repr_str_list xs =
     ''['' @ join_with '', '' (map (\<lambda>x. [CHR 0x27] @ x @ [CHR 0x27]) xs) @ '']''"

subsection \<open>Scrape\<close>

definition scrape_telegram_data :: "environment \<Rightarrow> py_error + pydict" where
  "scrape_telegram_data env =
     (if \<not> HAS_SCRAPER env then Inl ImportError
      else case py_int (case getenv env ''Tg_API_ID'' of None \<Rightarrow> PNone | Some s \<Rightarrow> PStr s) of
             Inl e \<Rightarrow> Inl e
           | Inr api_id \<Rightarrow>
               if api_id = 0 \<or> getenv env ''Tg_API_HASH'' = None
                  \<or> getenv env ''Tg_API_HASH'' = Some []
               then Inl ValueError
               else case scraper_run env of
                      Some e \<Rightarrow> Inl e
                    | None \<Rightarrow>
                        (let raw_dir = path_join (PROJECT_ROOT env)
                                         [''data'', ''raw'', ''telegram_messages'']
                         in if path_exists env raw_dir then
                              (let json_files = rglob_json env raw_dir
                               in Inr [(''scraped_files'', PInt (int (length json_files))),
                                       (''output_dir'', PStr raw_dir),
                                       (''file_list'', PList (map PStr (take 10 json_files)))])
                            else Inr [(''scraped_files'', PInt 0), (''output_dir'', PNone),
                                      (''file_list'', PList [])]))"

subsection \<open>Load\<close>

text \<open>
  The loop over \<^verbatim>\<open>json_files[:50]\<close>, with the running total and the files visited so
  far. An exception of \<^verbatim>\<open>open\<close>, \<^verbatim>\<open>json.load\<close> or \<^verbatim>\<open>load_to_raw\<close> is logged and the
  loop goes on.
\<close>

fun load_files :: "environment \<Rightarrow> string list \<Rightarrow> int \<Rightarrow> string list \<Rightarrow> int \<times> string list" where
  "load_files env [] total_records visited = (total_records, visited)"
| "load_files env (json_file # rest) total_records visited =
     (case read_json env json_file of
        Inl e \<Rightarrow> load_files env rest total_records (visited @ [json_file])
      | Inr data \<Rightarrow>
          if py_truthy data then
            (case load_to_raw env data of
               Inl e \<Rightarrow> load_files env rest total_records (visited @ [json_file])
             | Inr records \<Rightarrow>
                 load_files env rest (total_records + records) (visited @ [json_file]))
          else load_files env rest total_records (visited @ [json_file]))"

text \<open>What one file adds to the total: the count that the loader returns for it.\<close>

definition file_records :: "environment \<Rightarrow> string \<Rightarrow> int" where
  "file_records env json_file =
     (case read_json env json_file of
        Inl e \<Rightarrow> 0
      | Inr data \<Rightarrow>
          if py_truthy data then
            (case load_to_raw env data of Inl e \<Rightarrow> 0 | Inr records \<Rightarrow> records)
          else 0)"

text \<open>The op returns its summary; the second component lists the files it visited.\<close>

definition load_raw_to_postgres :: "environment \<Rightarrow> pydict \<Rightarrow> (py_error + pydict) \<times> string list" where
  "load_raw_to_postgres env scrape_result =
     (if \<not> HAS_LOADER env then
        (Inr [(''loaded_records'', PInt 0), (''status'', PStr ''skipped'')], [])
      else case map_of scrape_result ''scraped_files'' of
             None \<Rightarrow> (Inl KeyError, [])
           | Some n \<Rightarrow>
               if py_eq_zero n then
                 (Inr [(''loaded_records'', PInt 0), (''status'', PStr ''no_files'')], [])
               else case map_of scrape_result ''output_dir'' of
                      None \<Rightarrow> (Inl KeyError, [])
                    | Some (PStr raw_dir) \<Rightarrow>
                        (let json_files = rglob_json env raw_dir
                         in case get_connection env of
                              Some e \<Rightarrow> (Inl e, [])
                            | None \<Rightarrow>
                                (case load_files env (take 50 json_files) 0 [] of
                                   (total_records, visited) \<Rightarrow>
                                     (Inr [(''loaded_records'', PInt total_records),
                                           (''status'', PStr ''success'')], visited)))
                    | Some v \<Rightarrow> (Inl TypeError, []))"

subsection \<open>Transform\<close>

definition dbt_commands :: "string list list" where
  "dbt_commands = [[''dbt'', ''run''], [''dbt'', ''test''], [''dbt'', ''docs'', ''generate'']]"

text \<open>
  The loop over the commands: the message of the exception that leaves it, if any.
  \<^verbatim>\<open>cmd[1]\<close> on a command of fewer than two words raises \<^verbatim>\<open>IndexError\<close>.
\<close>

fun run_commands :: "(string list \<Rightarrow> string + int) \<Rightarrow> string list list \<Rightarrow> string option" where
  "run_commands run [] = None"
| "run_commands run (cmd # cmds) =
     (case run cmd of
        Inl e \<Rightarrow> Some e
      | Inr returncode \<Rightarrow>
          if returncode \<noteq> 0 then
            (case cmd of
               c0 # c1 # cs \<Rightarrow>
                 if c1 = ''test'' then run_commands run cmds
                 else Some (''dbt command failed: '' @ repr_str_list cmd)
             | _ \<Rightarrow> Some ''list index out of range'')
          else run_commands run cmds)"

definition run_dbt_transformations :: "environment \<Rightarrow> pydict \<Rightarrow> py_error + pydict" where
  "run_dbt_transformations env load_result =
     (case (case chdir env (path_join (PROJECT_ROOT env) [''medical_warehouse'']) of
              Some e \<Rightarrow> Some e
            | None \<Rightarrow> run_commands (subprocess_run env) dbt_commands) of
        None \<Rightarrow>
          Inr [(''dbt_status'', PStr ''success''),
               (''loaded_records'', dict_get load_result ''loaded_records'' (PInt 0)),
               (''tests_passed'', PBool True)]
      | Some e \<Rightarrow>
          Inr [(''dbt_status'', PStr ''failed''),
               (''loaded_records'', dict_get load_result ''loaded_records'' (PInt 0)),
               (''error'', PStr e),
               (''tests_passed'', PBool False)])"

subsection \<open>Enrich\<close>

text \<open>
  The body of the \<^verbatim>\<open>try\<close> block: the detector runs over the image directory, the
  detections are loaded and the model of the detections is rebuilt, whose return code is
  only logged.
\<close>

definition enrich_body :: "environment \<Rightarrow> string \<Rightarrow> string + pydict" where
  "enrich_body env images_dir =
     (case process_directory env images_dir of
        Inl e \<Rightarrow> Inl e
      | Inr results_df \<Rightarrow>
          (case (if HAS_LOADER env then
                   (case load_yolo_results env of
                      Some e \<Rightarrow> Some e
                    | None \<Rightarrow>
                        (case chdir env (path_join (PROJECT_ROOT env) [''medical_warehouse'']) of
                           Some e \<Rightarrow> Some e
                         | None \<Rightarrow>
                             (case subprocess_run env
                                     [''dbt'', ''run'', ''--select'', ''fct_image_detections''] of
                                Inl e \<Rightarrow> Some e
                              | Inr returncode \<Rightarrow> None)))
                 else None) of
             Some e \<Rightarrow> Inl e
           | None \<Rightarrow>
               (let category_counts =
                      (if df_len results_df > 0 then
                         (if ''image_category'' \<in> set (df_columns results_df)
                          then df_value_counts results_df ''image_category''
                          else if ''category'' \<in> set (df_columns results_df)
                          then df_value_counts results_df ''category''
                          else [])
                       else [])
                in Inr [(''detected_images'', PInt (int (df_len results_df))),
                        (''yolo_status'', PStr ''success''),
                        (''category_counts'', PDict category_counts),
                        (''sample_results'',
                           if df_len results_df > 0 then df_head results_df 3 else PList [])])))"

definition run_yolo_enrichment :: "environment \<Rightarrow> pydict \<Rightarrow> py_error + pydict" where
  "run_yolo_enrichment env dbt_result =
     (if \<not> HAS_YOLO env then
        Inr [(''detected_images'', PInt 0), (''yolo_status'', PStr ''skipped''),
             (''category_counts'', PDict []), (''error'', PStr ''Module not found'')]
      else
        (let images_dir = path_join (PROJECT_ROOT env) [''data'', ''raw'', ''images'']
         in if \<not> path_exists env images_dir then
              Inr [(''detected_images'', PInt 0), (''yolo_status'', PStr ''skipped''),
                   (''category_counts'', PDict []),
                   (''error'', PStr ''Images directory not found'')]
            else case enrich_body env images_dir of
                   Inr summary \<Rightarrow> Inr summary
                 | Inl e \<Rightarrow>
                     Inr [(''detected_images'', PInt 0), (''yolo_status'', PStr ''failed''),
                          (''category_counts'', PDict []),
                          (''error'', PStr e)]))"

subsection \<open>Publish\<close>

definition start_fastapi :: "environment \<Rightarrow> pydict \<Rightarrow> py_error + pydict" where
  "start_fastapi env yolo_result =
     Inr [(''api_status'', PStr ''ready''),
          (''endpoints'', PList [PStr ''GET /api/reports/top-products'',
                                 PStr ''GET /api/channels/{channel_name}/activity'',
                                 PStr ''GET /api/search/messages'',
                                 PStr ''GET /api/reports/visual-content'']),
          (''total_processed'', dict_get yolo_result ''detected_images'' (PInt 0)),
          (''category_counts'', dict_get yolo_result ''category_counts'' (PDict [])),
          (''yolo_status'', dict_get yolo_result ''yolo_status'' (PStr ''unknown''))]"

subsection \<open>The jobs\<close>

text \<open>
  \<^verbatim>\<open>RetryPolicy(max_retries=n)\<close>: an op that raises is run again, at most \<open>n\<close> more
  times; the exception of the last attempt fails the run and no later op starts. Every
  attempt of a stage meets the environment of its moment: \<open>world stage k\<close> is the
  environment of the \<open>k\<close>-th attempt.
\<close>

datatype stage = Scrape | Load | Transform | Enrich | Publish

fun with_retries :: "nat \<Rightarrow> (nat \<Rightarrow> py_error + 'a) \<Rightarrow> nat \<Rightarrow> py_error + 'a" where
  "with_retries 0 attempt k = attempt k"
| "with_retries (Suc n) attempt k =
     (case attempt k of Inr r \<Rightarrow> Inr r | Inl e \<Rightarrow> with_retries n attempt (Suc k))"

text \<open>
  The decorator \<^verbatim>\<open>@job\<close> calls the function once, while the module is imported, to read
  the graph of the ops off the calls of its body. A job has no outputs: a body that
  returns the output of an op is refused with \<^verbatim>\<open>DagsterInvalidDefinitionError\<close>, and
  then no job is defined and nothing can run. \<open>returns_output\<close> says whether the body
  ends in such a \<^verbatim>\<open>return\<close>; \<open>ops\<close> is the run of the graph that the body wires.
\<close>

definition job ::
  "bool \<Rightarrow> ((stage \<Rightarrow> nat \<Rightarrow> environment) \<Rightarrow> py_error + pydict)
     \<Rightarrow> (stage \<Rightarrow> nat \<Rightarrow> environment) \<Rightarrow> py_error + pydict" where
  "job returns_output ops world =
     (if returns_output then Inl DagsterInvalidDefinitionError else ops world)"

text \<open>The ops that the body of \<^verbatim>\<open>medical_telegram_pipeline\<close> wires, run in their order.\<close>

definition medical_telegram_pipeline_ops ::
  "(stage \<Rightarrow> nat \<Rightarrow> environment) \<Rightarrow> py_error + pydict" where
  "medical_telegram_pipeline_ops world =
     (case with_retries 3 (\<lambda>k. scrape_telegram_data (world Scrape k)) 0 of
        Inl e \<Rightarrow> Inl e
      | Inr scraped \<Rightarrow>
     (case with_retries 3 (\<lambda>k. fst (load_raw_to_postgres (world Load k) scraped)) 0 of
        Inl e \<Rightarrow> Inl e
      | Inr loaded \<Rightarrow>
     (case with_retries 3 (\<lambda>k. run_dbt_transformations (world Transform k) loaded) 0 of
        Inl e \<Rightarrow> Inl e
      | Inr transformed \<Rightarrow>
     (case with_retries 2 (\<lambda>k. run_yolo_enrichment (world Enrich k) transformed) 0 of
        Inl e \<Rightarrow> Inl e
      | Inr enriched \<Rightarrow> start_fastapi (world Publish 0) enriched))))"

text \<open>The body ends in \<^verbatim>\<open>return api_started\<close>.\<close>

definition medical_telegram_pipeline :: "(stage \<Rightarrow> nat \<Rightarrow> environment) \<Rightarrow> py_error + pydict" where
  "medical_telegram_pipeline world = job True medical_telegram_pipeline_ops world"

definition daily_scrape_job_ops :: "(stage \<Rightarrow> nat \<Rightarrow> environment) \<Rightarrow> py_error + pydict" where
  "daily_scrape_job_ops world =
     (case with_retries 3 (\<lambda>k. scrape_telegram_data (world Scrape k)) 0 of
        Inl e \<Rightarrow> Inl e
      | Inr scraped \<Rightarrow>
     (case with_retries 3 (\<lambda>k. fst (load_raw_to_postgres (world Load k) scraped)) 0 of
        Inl e \<Rightarrow> Inl e
      | Inr loaded \<Rightarrow>
          with_retries 3 (\<lambda>k. run_dbt_transformations (world Transform k) loaded) 0))"

text \<open>The body ends in \<^verbatim>\<open>return transformed\<close>.\<close>

definition daily_scrape_job :: "(stage \<Rightarrow> nat \<Rightarrow> environment) \<Rightarrow> py_error + pydict" where
  "daily_scrape_job world = job True daily_scrape_job_ops world"

subsection \<open>Example environments\<close>

text \<open>
  An environment in which every module is present, the credentials are set, every
  directory exists, no JSON file has been written and every sub-process succeeds; the
  detector fails when it is run. The examples change one field at a time.
\<close>

definition idle_environment :: environment where
  "idle_environment =
     \<lparr> HAS_SCRAPER = True, HAS_LOADER = True, HAS_YOLO = True, PROJECT_ROOT = ''/app'',
       getenv = (\<lambda>k. if k = ''Tg_API_ID'' then Some ''12345''
                       else if k = ''Tg_API_HASH'' then Some ''abcdef'' else None),
       scraper_run = None,
       path_exists = (\<lambda>p. True),
       rglob_json = (\<lambda>d. []),
       read_json = (\<lambda>f. Inr (PList [PDict [(''message_id'', PInt 1)]])),
       get_connection = None,
       load_to_raw = (\<lambda>data. Inr 1),
       chdir = (\<lambda>d. None),
       subprocess_run = (\<lambda>cmd. Inr 0),
       process_directory = (\<lambda>d. Inl ''no model''),
       load_yolo_results = None \<rparr>"

text \<open>The names of \<open>n\<close> JSON files.\<close>

definition json_names :: "nat \<Rightarrow> string list" where
  "json_names n = map (\<lambda>i. replicate i (CHR ''a'') @ ''.json'') [1..<Suc n]"

section \<open>Properties of the record normalizer\<close>

lemma map_of_rename_key:
  "k \<noteq> fst kv \<Longrightarrow> k \<noteq> snd kv \<Longrightarrow> map_of (rename_key kv r) k = map_of r k"
  by (simp add: rename_key_def update_conv' delete_conv' split: option.splits)

lemma map_of_fold_rename_key:
  "\<forall>kv\<in>set kvs. k \<noteq> fst kv \<and> k \<noteq> snd kv \<Longrightarrow> map_of (fold rename_key kvs r) k = map_of r k"
  by (induction kvs arbitrary: r) (simp_all add: map_of_rename_key)

lemma map_of_ensure_key:
  "map_of (ensure_key key r) k = (if k = key \<and> map_of r k = None then Some PNone else map_of r k)"
  by (auto simp: ensure_key_def update_conv' split: option.splits)

lemma map_of_fold_ensure_key:
  "map_of (fold ensure_key ks r) k = (if k \<in> set ks \<and> map_of r k = None then Some PNone else map_of r k)"
  by (induction ks arbitrary: r) (auto simp: map_of_ensure_key)

lemma convert_int_field_ok:
  assumes "map_of r f = Some x" "x \<noteq> PFloat PosInf" "x \<noteq> PFloat NegInf"
  shows "convert_int_field f r = Inr (AList.update f (PInt (best_effort_int (Some x))) r)"
proof (cases "py_int x")
  case (Inl e)
  with assms have "e = ValueError \<or> e = TypeError"
    by (cases x rule: py_int.cases) (auto split: option.splits)
  with Inl assms show ?thesis
    by (auto simp: convert_int_field_def best_effort_int_def)
next
  case (Inr i)
  with assms show ?thesis
    by (auto simp: convert_int_field_def best_effort_int_def)
qed

lemma best_effort_int_idem [simp]: "best_effort_int (Some (PInt i)) = i"
  by (simp add: best_effort_int_def)

lemma best_effort_int_defaults:
  "best_effort_int None = 0"
  "best_effort_int (Some PNone) = 0"
  "py_int x = Inl e \<Longrightarrow> best_effort_int (Some x) = 0"
  "x \<noteq> PNone \<Longrightarrow> py_int x = Inr i \<Longrightarrow> best_effort_int (Some x) = i"
  by (simp_all add: best_effort_int_def)

lemma for_each_convert_int_field:
  assumes "distinct fs"
    and "\<forall>f\<in>set fs. \<exists>x. map_of r f = Some x \<and> x \<noteq> PFloat PosInf \<and> x \<noteq> PFloat NegInf"
  shows "\<exists>r'. for_each convert_int_field fs r = Inr r' \<and>
           (\<forall>k. map_of r' k = (if k \<in> set fs then Some (PInt (best_effort_int (map_of r k)))
                               else map_of r k))"
  using assms
proof (induction fs arbitrary: r)
  case Nil
  then show ?case by simp
next
  case (Cons f fs)
  from Cons.prems obtain x where x: "map_of r f = Some x" "x \<noteq> PFloat PosInf" "x \<noteq> PFloat NegInf"
    by auto
  let ?r1 = "AList.update f (PInt (best_effort_int (Some x))) r"
  have step: "convert_int_field f r = Inr ?r1"
    using x by (rule convert_int_field_ok)
  have other: "map_of ?r1 k = map_of r k" if "k \<noteq> f" for k
    using that by (simp add: update_conv')
  have "\<forall>g\<in>set fs. \<exists>y. map_of ?r1 g = Some y \<and> y \<noteq> PFloat PosInf \<and> y \<noteq> PFloat NegInf"
    using Cons.prems by (auto simp: update_conv')
  moreover have "distinct fs" using Cons.prems by simp
  ultimately obtain r' where r': "for_each convert_int_field fs ?r1 = Inr r'"
    "\<forall>k. map_of r' k = (if k \<in> set fs then Some (PInt (best_effort_int (map_of ?r1 k)))
                               else map_of ?r1 k)"
    using Cons.IH by blast
  have "f \<notin> set fs" using Cons.prems by simp
  then have "\<forall>k. map_of r' k = (if k \<in> set (f # fs) then Some (PInt (best_effort_int (map_of r k)))
                               else map_of r k)"
    using r'(2) x(1) by (auto simp: update_conv')
  with step r'(1) show ?case by simp
qed

lemma for_each_blank_ts_field:
  assumes "\<forall>f\<in>set fs. map_of r f \<noteq> None"
  shows "\<exists>r'. for_each blank_ts_field fs r = Inr r' \<and>
           (\<forall>k. map_of r' k = (if k \<in> set fs \<and> map_of r k = Some (PStr []) then Some PNone
                               else map_of r k))"
  using assms
proof (induction fs arbitrary: r)
  case Nil
  then show ?case by simp
next
  case (Cons f fs)
  from Cons.prems obtain x where x: "map_of r f = Some x" by auto
  define r1 where "r1 = (if x = PStr [] then AList.update f PNone r else r)"
  have step: "blank_ts_field f r = Inr r1"
    using x by (simp add: blank_ts_field_def r1_def)
  have m1: "map_of r1 k = (if k = f \<and> map_of r k = Some (PStr []) then Some PNone else map_of r k)" for k
    using x by (auto simp: update_conv' r1_def)
  have "\<forall>g\<in>set fs. map_of r1 g \<noteq> None"
    using Cons.prems by (auto simp: m1)
  then obtain r' where r': "for_each blank_ts_field fs r1 = Inr r'"
    "\<forall>k. map_of r' k = (if k \<in> set fs \<and> map_of r1 k = Some (PStr []) then Some PNone
                               else map_of r1 k)"
    using Cons.IH by blast
  have "\<forall>k. map_of r' k = (if k \<in> set (f # fs) \<and> map_of r k = Some (PStr []) then Some PNone
                               else map_of r k)"
    using r'(2) by (auto simp: m1)
  with step r'(1) show ?case by simp
qed

lemma normalize_dict_ok:
  assumes "\<forall>f\<in>set int_fields. map_of record f \<noteq> Some (PFloat PosInf)
                               \<and> map_of record f \<noteq> Some (PFloat NegInf)"
  shows "\<exists>out. normalize_dict record = Inr out \<and>
           (\<forall>k\<in>set required_keys. map_of out k \<noteq> None) \<and>
           (\<forall>f\<in>set int_fields. map_of out f = Some (PInt (best_effort_int (map_of record f))))"
proof -
  let ?r1 = "fold rename_key mapping record"
  let ?r2 = "fold ensure_key required_keys ?r1"
  have ren: "map_of ?r1 f = map_of record f" if "f \<in> set int_fields" for f
    using that by (intro map_of_fold_rename_key) (auto simp: int_fields_def mapping_def)
  have sub: "set int_fields \<subseteq> set required_keys" "set ts_fields \<subseteq> set required_keys"
    by (auto simp: int_fields_def required_keys_def ts_fields_def)
  have r2: "map_of ?r2 f = (if map_of record f = None then Some PNone else map_of record f)"
    if "f \<in> set int_fields" for f
    using that sub by (auto simp: map_of_fold_ensure_key ren)
  have r2_dom: "map_of ?r2 k \<noteq> None" if "k \<in> set required_keys" for k
    using that by (simp add: map_of_fold_ensure_key)
  have "\<forall>f\<in>set int_fields. \<exists>x. map_of ?r2 f = Some x \<and> x \<noteq> PFloat PosInf \<and> x \<noteq> PFloat NegInf"
    using assms by (auto simp: r2)
  moreover have "distinct int_fields" by (simp add: int_fields_def)
  ultimately obtain r3 where r3: "for_each convert_int_field int_fields ?r2 = Inr r3"
    "\<forall>k. map_of r3 k = (if k \<in> set int_fields then Some (PInt (best_effort_int (map_of ?r2 k)))
                               else map_of ?r2 k)"
    using for_each_convert_int_field by blast
  have r3_dom: "map_of r3 k \<noteq> None" if "k \<in> set required_keys" for k
    using that r3(2) r2_dom by auto
  then have "\<forall>f\<in>set ts_fields. map_of r3 f \<noteq> None" using sub by auto
  then obtain r4 where r4: "for_each blank_ts_field ts_fields r3 = Inr r4"
    "\<forall>k. map_of r4 k = (if k \<in> set ts_fields \<and> map_of r3 k = Some (PStr []) then Some PNone
                               else map_of r3 k)"
    using for_each_blank_ts_field by blast
  have "normalize_dict record = Inr r4"
    using r3(1) r4(1) by (simp add: normalize_dict_def)
  moreover have "\<forall>k\<in>set required_keys. map_of r4 k \<noteq> None"
    using r4(2) r3_dom by auto
  moreover have "map_of r4 f = Some (PInt (best_effort_int (map_of record f)))"
    if "f \<in> set int_fields" for f
  proof -
    have "f \<notin> set ts_fields" using that by (auto simp: int_fields_def ts_fields_def)
    then have "map_of r4 f = map_of r3 f" using r4(2) by simp
    also have "\<dots> = Some (PInt (best_effort_int (map_of ?r2 f)))" using r3(2) that by simp
    also have "best_effort_int (map_of ?r2 f) = best_effort_int (map_of record f)"
      using that by (auto simp: r2 best_effort_int_def)
    finally show ?thesis .
  qed
  ultimately show ?thesis by blast
qed

lemma normalize_dict_is_normalized:
  assumes "\<forall>f\<in>set int_fields. map_of record f \<noteq> Some (PFloat PosInf)
                               \<and> map_of record f \<noteq> Some (PFloat NegInf)"
  shows "\<exists>out. normalize_dict record = Inr out \<and> is_normalized out"
proof -
  from normalize_dict_ok[OF assms] obtain out where out: "normalize_dict record = Inr out"
    "\<forall>k\<in>set required_keys. map_of out k \<noteq> None"
    "\<forall>f\<in>set int_fields. map_of out f = Some (PInt (best_effort_int (map_of record f)))"
    by blast
  have "''message_id'' \<in> set int_fields" by (simp add: int_fields_def)
  with out(3) have "map_of out ''message_id'' = Some (PInt (best_effort_int (map_of record ''message_id'')))"
    by blast
  with out(2) have "is_normalized out"
    by (simp add: is_normalized_def list_all_iff)
  with out(1) show ?thesis by blast
qed

text \<open>
  Claim C2, as amended. For every input mapping in which none of the five integer fields
  holds an infinite float, the normalizer returns a record (it does not raise) in which
  all thirteen required keys are present, and each of the five integer fields holds the
  integer that best-effort parsing gives: \<open>0\<close> when the field is absent, null or fails
  to parse, and the parsed integer otherwise, whatever its sign.
\<close>

theorem normalize_record_total:
  assumes "\<forall>f\<in>set int_fields. map_of record f \<noteq> Some (PFloat PosInf)
                               \<and> map_of record f \<noteq> Some (PFloat NegInf)"
  shows "\<exists>out. normalize_record (PDict record) = Inr (PDict out) \<and>
           (\<forall>k\<in>set required_keys. map_of out k \<noteq> None) \<and>
           (\<forall>f\<in>set int_fields. map_of out f = Some (PInt (best_effort_int (map_of record f))))"
proof -
  from normalize_dict_ok[OF assms] obtain out where "normalize_dict record = Inr out"
    and keys: "\<forall>k\<in>set required_keys. map_of out k \<noteq> None"
    and ints: "\<forall>f\<in>set int_fields. map_of out f = Some (PInt (best_effort_int (map_of record f)))"
    by blast
  then have "normalize_record (PDict record) = Inr (PDict out)" by simp
  with keys ints show ?thesis by blast
qed

text \<open>The amended claim at \<^verbatim>\<open>{"views": "abc"}\<close>: the field becomes \<open>0\<close>.\<close>

theorem normalize_record_total_witness:
  "\<exists>out. normalize_record (PDict [(''views'', PStr ''abc'')]) = Inr (PDict out) \<and>
         map_of out ''views'' = Some (PInt 0) \<and> map_of out ''message_id'' = Some (PInt 0) \<and>
         map_of out ''scraped_at'' \<noteq> None"
  using normalize_record_total [of "[(''views'', PStr ''abc'')]"]
  by (auto simp: int_fields_def required_keys_def best_effort_int_def int_of_str_def py_strip_def
      py_isspace_def py_isdigit_def parse_numeral_def int_max_str_digits_def)

lemmas normalize_defs = normalize_dict_def mapping_def required_keys_def int_fields_def
  ts_fields_def rename_key_def ensure_key_def convert_int_field_def blank_ts_field_def

text \<open>
  Claim C2 as stated fails at \<^verbatim>\<open>{"views": -5}\<close>: the normalizer keeps the negative
  integer, so an integer field is not always non-negative.
\<close>

theorem normalize_record_negative_counterexample:
  "normalize_record (PDict [(''views'', PInt (- 5))]) =
     Inr (PDict [(''views'', PInt (- 5)), (''message_id'', PInt 0), (''channel_id'', PInt 0),
                 (''channel_username'', PNone), (''channel_title'', PNone),
                 (''message_date'', PNone), (''message_text'', PNone), (''forwards'', PInt 0),
                 (''replies'', PInt 0), (''media_type'', PNone), (''media_file'', PNone),
                 (''message_url'', PNone), (''scraped_at'', PNone)])"
  by (simp add: normalize_defs)

text \<open>
  The handler around \<^verbatim>\<open>int()\<close> does not catch \<^verbatim>\<open>OverflowError\<close>: on an infinite
  float the normalizer raises.
\<close>

lemma normalize_record_overflow:
  "normalize_record (PDict [(''views'', PFloat PosInf)]) = Inl OverflowError"
  by (simp add: normalize_defs)

text \<open>The empty mapping gives the all-default record.\<close>

lemma normalize_record_empty:
  "normalize_record (PDict []) =
     Inr (PDict [(''message_id'', PInt 0), (''channel_id'', PInt 0),
                 (''channel_username'', PNone), (''channel_title'', PNone),
                 (''message_date'', PNone), (''message_text'', PNone), (''views'', PInt 0),
                 (''forwards'', PInt 0), (''replies'', PInt 0), (''media_type'', PNone),
                 (''media_file'', PNone), (''message_url'', PNone), (''scraped_at'', PNone)])"
  by (simp add: normalize_defs)

text \<open>
  Claim C10. On an input that is not a mapping (a list, a string, null, a number) the
  normalizer returns the empty record, which holds none of the thirteen required keys; it
  neither raises nor returns an all-default record.
\<close>

theorem normalize_record_non_mapping:
  assumes "\<not> isinstance_dict v"
  shows "\<exists>out. normalize_record v = Inr (PDict out) \<and> out = [] \<and>
           (\<forall>k\<in>set required_keys. map_of out k = None)"
  using assms by (cases v) simp_all

text \<open>Claim C10 at a list, a string and null.\<close>

theorem normalize_record_non_mapping_witness:
  "normalize_record (PList [PInt 1]) = Inr (PDict []) \<and>
   normalize_record (PStr ''abc'') = Inr (PDict []) \<and>
   normalize_record PNone = Inr (PDict [])"
  using normalize_record_non_mapping [of "PList [PInt 1]"]
    normalize_record_non_mapping [of "PStr ''abc''"]
    normalize_record_non_mapping [of PNone]
  by simp

section \<open>Properties of the loader\<close>

lemma bind_params_present:
  assumes "\<forall>c\<in>set cs. map_of record c \<noteq> None"
  shows "\<exists>row. bind_params cs record = Inr row \<and> map fst row = cs \<and>
           (\<forall>c\<in>set cs. map_of row c = map_of record c)"
  using assms
proof (induction cs)
  case Nil
  then show ?case by simp
next
  case (Cons c cs)
  then obtain v where v: "map_of record c = Some v" by auto
  from Cons obtain row where row: "bind_params cs record = Inr row" "map fst row = cs"
    "\<forall>c\<in>set cs. map_of row c = map_of record c"
    by auto
  have "bind_params (c # cs) record = Inr ((c, v) # row)"
    using v row(1) by simp
  moreover have "\<forall>d\<in>set (c # cs). map_of ((c, v) # row) d = map_of record d"
    using v row(3) by auto
  ultimately show ?case using row(2) by auto
qed

lemma required_keys_are_columns: "sql_columns = required_keys"
  by (simp add: sql_columns_def required_keys_def)

lemma is_normalized_key:
  "is_normalized record \<Longrightarrow> \<exists>i. map_of record ''message_id'' = Some (PInt i)"
  by (auto simp: is_normalized_def split: option.splits pyval.splits)

lemma bind_params_normalized:
  assumes "is_normalized record"
  shows "\<exists>row. bind_params sql_columns record = Inr row \<and>
           map_of row ''message_id'' = map_of record ''message_id''"
proof -
  have "\<forall>c\<in>set sql_columns. map_of record c \<noteq> None"
    using assms by (simp add: is_normalized_def list_all_iff required_keys_are_columns)
  from bind_params_present[OF this] obtain row where
    "bind_params sql_columns record = Inr row"
    "\<forall>c\<in>set sql_columns. map_of row c = map_of record c" by blast
  moreover have "''message_id'' \<in> set sql_columns" by (simp add: sql_columns_def)
  ultimately show ?thesis by blast
qed

lemma conflicts_iff:
  "conflicts tbl row \<longleftrightarrow>
     map_of row ''message_id'' \<noteq> Some PNone \<and> map_of row ''message_id'' \<in> set (message_ids tbl)"
  by (auto simp: conflicts_def message_ids_def list_ex_iff intro: rev_image_eqI)

lemma execute_sql_normalized:
  assumes "is_normalized record"
  shows "\<exists>tbl'. execute_sql record tbl = Inr tbl' \<and>
           (if map_of record ''message_id'' \<in> set (message_ids tbl) then tbl' = tbl
            else length tbl' = Suc (length tbl) \<and>
                 message_ids tbl' = message_ids tbl @ [map_of record ''message_id''])"
proof -
  from bind_params_normalized[OF assms] obtain row where
    row: "bind_params sql_columns record = Inr row"
      "map_of row ''message_id'' = map_of record ''message_id''" by blast
  from is_normalized_key[OF assms] obtain i where "map_of record ''message_id'' = Some (PInt i)"
    by blast
  with row(2) have "conflicts tbl row \<longleftrightarrow> map_of record ''message_id'' \<in> set (message_ids tbl)"
    by (simp add: conflicts_iff)
  with row show ?thesis
    by (simp add: execute_sql_def message_ids_def)
qed

lemma execute_batch_normalized:
  assumes "\<forall>r\<in>set records. is_normalized r"
  shows "\<exists>tbl'. execute_batch tbl records = Inr tbl' \<and>
           set (message_ids tbl') = set (message_ids tbl) \<union> (\<lambda>r. map_of r ''message_id'') ` set records \<and>
           length tbl \<le> length tbl' \<and> length tbl' \<le> length tbl + length records \<and>
           (distinct (message_ids tbl) \<longrightarrow> distinct (message_ids tbl'))"
  using assms
proof (induction records arbitrary: tbl)
  case Nil
  then show ?case by (simp add: execute_batch_def)
next
  case (Cons r records)
  then have "is_normalized r" by simp
  from execute_sql_normalized[OF this, of tbl] obtain t1 where
    t1: "execute_sql r tbl = Inr t1"
      "if map_of r ''message_id'' \<in> set (message_ids tbl) then t1 = tbl
       else length t1 = Suc (length tbl) \<and>
            message_ids t1 = message_ids tbl @ [map_of r ''message_id'']"
    by blast
  have ids: "set (message_ids t1) = insert (map_of r ''message_id'') (set (message_ids tbl))"
    using t1(2) by (auto split: if_splits)
  have len: "length tbl \<le> length t1" "length t1 \<le> Suc (length tbl)"
    using t1(2) by (auto split: if_splits)
  have dist: "distinct (message_ids tbl) \<longrightarrow> distinct (message_ids t1)"
    using t1(2) by (auto split: if_splits)
  from Cons obtain t2 where
    t2: "execute_batch t1 records = Inr t2"
      "set (message_ids t2) = set (message_ids t1) \<union> (\<lambda>r. map_of r ''message_id'') ` set records"
      "length t1 \<le> length t2" "length t2 \<le> length t1 + length records"
      "distinct (message_ids t1) \<longrightarrow> distinct (message_ids t2)"
    by (metis list.set_intros(2))
  have "execute_batch tbl (r # records) = Inr t2"
    using t1(1) t2(1) by (simp add: execute_batch_def)
  moreover have "set (message_ids t2) =
      set (message_ids tbl) \<union> (\<lambda>r. map_of r ''message_id'') ` set (r # records)"
    using t2(2) ids by auto
  ultimately show ?case using len t2(3,4,5) dist by auto
qed

lemma execute_batch_all_present:
  assumes "\<forall>r\<in>set records. is_normalized r \<and> map_of r ''message_id'' \<in> set (message_ids tbl)"
  shows "execute_batch tbl records = Inr tbl"
  using assms
proof (induction records)
  case Nil
  then show ?case by (simp add: execute_batch_def)
next
  case (Cons r records)
  then have r: "is_normalized r" "map_of r ''message_id'' \<in> set (message_ids tbl)" by simp_all
  from execute_sql_normalized[OF r(1), of tbl] r(2) have "execute_sql r tbl = Inr tbl"
    by auto
  moreover have "execute_batch tbl records = Inr tbl" using Cons by simp
  ultimately show ?case by (simp add: execute_batch_def)
qed

lemma normalize_record_message_row:
  "normalize_record (PDict [(''message_id'', PInt i)]) = Inr (PDict (message_row i))"
  by (simp add: normalize_defs message_row_def)

lemma is_normalized_message_row: "is_normalized (message_row i)"
  by (simp add: is_normalized_def message_row_def required_keys_def)

text \<open>
  Claim C1. Loading a batch of normalized records and then loading the same batch again
  leaves the table as the first load left it, so the row count is the same: every insert
  of the second load collides on \<^verbatim>\<open>message_id\<close> and is dropped, no error is raised
  and no row is duplicated (a table with unique keys keeps unique keys).
\<close>

theorem load_twice_same_rows:
  assumes "\<forall>r\<in>set records. is_normalized r"
  shows "\<exists>tbl1 tbl2 n1 n2. main tbl records = Inr (tbl1, n1) \<and>
           main tbl1 records = Inr (tbl2, n2) \<and> tbl2 = tbl1 \<and> length tbl2 = length tbl1 \<and>
           (distinct (message_ids tbl) \<longrightarrow> distinct (message_ids tbl2))"
proof -
  from execute_batch_normalized[OF assms, of tbl] obtain tbl1 where
    t1: "execute_batch tbl records = Inr tbl1"
      "set (message_ids tbl1) = set (message_ids tbl) \<union> (\<lambda>r. map_of r ''message_id'') ` set records"
      "distinct (message_ids tbl) \<longrightarrow> distinct (message_ids tbl1)"
    by blast
  have "\<forall>r\<in>set records. is_normalized r \<and> map_of r ''message_id'' \<in> set (message_ids tbl1)"
    using assms t1(2) by auto
  then have again: "execute_batch tbl1 records = Inr tbl1"
    by (rule execute_batch_all_present)
  show ?thesis
  proof (cases "records = []")
    case True
    then show ?thesis by (simp add: main_def)
  next
    case False
    with t1(1) again have "main tbl records = Inr (tbl1, Some (length records))"
      "main tbl1 records = Inr (tbl1, Some (length records))"
      by (simp_all add: main_def)
    with t1(3) show ?thesis by simp
  qed
qed

lemma main_example:
  "main [] [message_row 7, message_row 7, message_row 8] =
     Inr ([message_row 7, message_row 8], Some 3)"
  by (simp add: main_def execute_batch_def execute_sql_def sql_columns_def message_row_def
      conflicts_def)

text \<open>Claim C1 on a batch of three records, two of them with the same key.\<close>

theorem load_twice_same_rows_witness:
  "main [] [message_row 7, message_row 7, message_row 8]
     = Inr ([message_row 7, message_row 8], Some 3) \<and>
   main [message_row 7, message_row 8] [message_row 7, message_row 7, message_row 8]
     = Inr ([message_row 7, message_row 8], Some 3)"
  using load_twice_same_rows [of "[message_row 7, message_row 7, message_row 8]" "[]"]
  by (simp add: is_normalized_message_row main_def execute_batch_def execute_sql_def
      sql_columns_def message_row_def conflicts_def)

text \<open>
  Claim C5, as amended. For a non-empty batch of normalized records the loader reports the
  size of the batch, \<^verbatim>\<open>len(records)\<close>, whether or not a collision dropped some of them;
  the number of rows actually inserted is at most that number.
\<close>

theorem main_reports_batch_size:
  assumes "records \<noteq> []" and "\<forall>r\<in>set records. is_normalized r"
  shows "\<exists>tbl'. main tbl records = Inr (tbl', Some (length records)) \<and>
           length tbl \<le> length tbl' \<and> length tbl' - length tbl \<le> length records"
proof -
  from execute_batch_normalized[OF assms(2), of tbl] obtain tbl' where
    "execute_batch tbl records = Inr tbl'" "length tbl \<le> length tbl'"
    "length tbl' \<le> length tbl + length records"
    by blast
  with assms(1) show ?thesis by (auto simp: main_def)
qed

text \<open>Claim C5 as amended, on a table that already holds one of two records.\<close>

theorem main_reports_batch_size_witness:
  "main [message_row 7] [message_row 7, message_row 8]
     = Inr ([message_row 7, message_row 8], Some 2)"
  using main_reports_batch_size [of "[message_row 7, message_row 8]" "[message_row 7]"]
  by (simp add: is_normalized_message_row main_def execute_batch_def execute_sql_def
      sql_columns_def message_row_def conflicts_def)

text \<open>
  Claim C5 as stated fails on a batch that holds the same record twice: one row is
  inserted, the second insert is dropped, and the loader reports 2.
\<close>

theorem main_count_counterexample:
  "main [] [message_row 7, message_row 7] = Inr ([message_row 7], Some 2) \<and>
   length [message_row 7] - length ([] :: table) = 1"
  by (simp add: main_def execute_batch_def execute_sql_def sql_columns_def message_row_def
      conflicts_def)

section \<open>Properties of the manifest writer\<close>

lemma map_of_dict_update_other:
  "map_of extra k = None \<Longrightarrow> map_of (dict_update extra payload) k = map_of payload k"
proof (induction extra arbitrary: payload)
  case Nil
  then show ?case by (simp add: dict_update_def)
next
  case (Cons kv extra)
  then have "k \<noteq> fst kv" "map_of extra k = None"
    by (cases kv; simp split: if_splits)+
  with Cons.IH[of "AList.update (fst kv) (snd kv) payload"] show ?case
    by (simp add: dict_update_def update_conv')
qed

lemma manifest_payload_fields:
  assumes "\<forall>e. extra = Some e \<longrightarrow> map_of e ''channels'' = None \<and> map_of e ''total_messages'' = None"
  shows "map_of (manifest_payload date_str now counts extra) ''total_messages''
           = Some (PInt (sum_list (map snd counts)))"
    and "map_of (manifest_payload date_str now counts extra) ''channels'' = Some (counts_dict counts)"
  using assms
  by (auto simp: manifest_payload_def Let_def map_of_dict_update_other split: option.splits)

text \<open>
  Claim C7. For every per-channel counts mapping, the manifest that the writer stores at
  the returned path has \<^verbatim>\<open>total_messages\<close> equal to the sum of the counts and
  \<^verbatim>\<open>channels\<close> equal to the mapping itself. This holds for a call without
  \<^verbatim>\<open>extra\<close> (the only call of the repository) and for any \<^verbatim>\<open>extra\<close> that binds
  neither of the two keys.
\<close>

theorem write_manifest_totals:
  assumes "\<forall>e. extra = Some e \<longrightarrow> map_of e ''channels'' = None \<and> map_of e ''total_messages'' = None"
  shows "\<exists>path fs' payload.
           write_manifest fs base_path date_str now counts extra = (path, fs') \<and>
           files fs' path = Some (PDict payload) \<and>
           map_of payload ''total_messages'' = Some (PInt (sum_list (map snd counts))) \<and>
           map_of payload ''channels'' = Some (counts_dict counts)"
  using manifest_payload_fields[OF assms]
  by (simp add: write_manifest_def Let_def)

text \<open>Claim C7 at the counts \<^verbatim>\<open>{A: 3, B: 0, C: 7}\<close>: the total is 10.\<close>

theorem write_manifest_totals_witness:
  "\<exists>path fs' payload.
     write_manifest \<lparr>dirs = {}, files = Map.empty\<rparr> ''data'' ''2026-01-16'' ''2026-01-16T00:00:00+00:00''
       [(''A'', 3), (''B'', 0), (''C'', 7)] None = (path, fs') \<and>
     files fs' path = Some (PDict payload) \<and>
     map_of payload ''total_messages'' = Some (PInt 10) \<and>
     map_of payload ''channels'' = Some (PDict [(''A'', PInt 3), (''B'', PInt 0), (''C'', PInt 7)])"
  using write_manifest_totals [of None "\<lparr>dirs = {}, files = Map.empty\<rparr>" "''data''" "''2026-01-16''"
      "''2026-01-16T00:00:00+00:00''" "[(''A'', 3), (''B'', 0), (''C'', 7)]"]
  by (simp add: counts_dict_def)

text \<open>An \<^verbatim>\<open>extra\<close> that binds one of the keys of the payload replaces its value.\<close>

lemma write_manifest_extra_overrides:
  "manifest_payload ''2026-01-16'' now [(''A'', 3)] (Some [(''total_messages'', PInt 0)]) =
     [(''date'', PStr ''2026-01-16''), (''run_utc'', PStr now),
      (''channels'', PDict [(''A'', PInt 3)]), (''total_messages'', PInt 0)]"
  by (simp add: manifest_payload_def Let_def dict_update_def counts_dict_def)

lemma write_manifest_path:
  "fst (write_manifest fs ''data'' ''2026-01-16'' now counts extra)
     = ''data/raw/telegram_messages/2026-01-16/_manifest.json''"
  by (simp add: write_manifest_def Let_def raw_partition_dir_def path_join_def path_join2_def)

section \<open>Properties of the scraper\<close>



lemma scrape_loop_keeps_messages:
  "\<exists>more. messages (snd (scrape_loop c channel ent image_dir now k evs st)) = messages st @ more"
proof (induction evs arbitrary: k st)
  case Nil
  then show ?case by simp
next
  case (Cons ev evs)
  show ?case
  proof (cases ev)
    case (Yield msg)
    show ?thesis
    proof (cases "build_message c channel ent image_dir (now k) msg")
      case (Inl e)
      with Yield Cons.IH[of "Suc k" st] show ?thesis by simp
    next
      case (Inr m)
      let ?st = "st\<lparr>messages := messages st @ [m], slept := slept st @ [MESSAGE_DELAY]\<rparr>"
      from Cons.IH[of "Suc k" ?st] obtain more where
        "messages (snd (scrape_loop c channel ent image_dir now (Suc k) evs ?st))
           = messages ?st @ more" by blast
      with Yield Inr show ?thesis by simp
    qed
  next
    case (Raise e)
    then show ?thesis by simp
  qed
qed



lemma build_plain_message:
  "build_message c channel untitled_entity image_dir now (plain_post i)
     = Inr (plain_message i channel now)"
  by (simp add: build_message_def plain_post_def untitled_entity_def plain_message_def)



text \<open>A flood wait at the resolution of the channel gives no message at all.\<close>

lemma scrape_channel_throttled_at_entry:
  assumes "get_entity c channel = Inl (FloodWaitError seconds)"
  shows "scrape_channel c channel base_path now = (Inr [], [1000 * seconds])"
  using assms by (simp add: scrape_channel_def)

lemma scrape_channel_private:
  assumes "get_entity c channel = Inl ChannelPrivateError \<or>
           get_entity c channel = Inl UsernameNotOccupiedError"
  shows "scrape_channel c channel base_path now = (Inr [], [])"
  using assms by (auto simp: scrape_channel_def)

text \<open>
  Claim C8, as amended. In every message built from a post, a missing user name falls
  back to the configured channel identifier, a missing title falls back to the empty
  string, a failed or empty reply count gives \<open>0\<close>, and a missing text gives the empty
  string.
\<close>

theorem build_message_defaults:
  assumes "build_message c channel ent image_dir now msg = Inr m"
  shows "(username ent = None \<or> username ent = Some [] \<longrightarrow> channel_username m = channel) \<and>
         (title ent = None \<or> title ent = Some [] \<longrightarrow> channel_title m = []) \<and>
         (msg_replies msg = RepliesRaises \<or> msg_replies msg = RepliesNone \<longrightarrow> replies m = 0) \<and>
         (msg_text msg = None \<longrightarrow> text' m = [])"
  using assms by (auto simp: build_message_def split: sum.splits)

text \<open>Claim C8 as amended, on a post without text and replies of an untitled channel.\<close>

theorem build_message_defaults_witness:
  "channel_username (plain_message 1 ''@chan'' ''12:00'') = ''@chan'' \<and>
   channel_title (plain_message 1 ''@chan'' ''12:00'') = [] \<and>
   replies (plain_message 1 ''@chan'' ''12:00'') = 0 \<and>
   text' (plain_message 1 ''@chan'' ''12:00'') = []"
proof -
  have built: "build_message (throttled_client [] 0 []) ''@chan'' untitled_entity [] ''12:00''
                 (plain_post 1) = Inr (plain_message 1 ''@chan'' ''12:00'')"
    by (rule build_plain_message)
  from build_message_defaults [OF built] show ?thesis
    by (simp add: untitled_entity_def plain_post_def)
qed

text \<open>
  Claim C8 as stated fails for the title: with no title and the channel identifier
  \<^verbatim>\<open>@chan\<close> the message carries the empty title, not \<^verbatim>\<open>@chan\<close>.
\<close>

theorem build_message_title_counterexample:
  "build_message (throttled_client [] 0 []) ''@chan'' untitled_entity [] ''12:00'' (plain_post 1)
     = Inr (plain_message 1 ''@chan'' ''12:00'') \<and>
   channel_title (plain_message 1 ''@chan'' ''12:00'') = [] \<and>
   channel_title (plain_message 1 ''@chan'' ''12:00'') \<noteq> ''@chan''"
  by (simp add: build_plain_message plain_message_def)

section \<open>Properties of the orchestrator\<close>

text \<open>The Transform stage returns a summary whatever its commands do.\<close>

lemma run_dbt_transformations_returns:
  "\<exists>summary. run_dbt_transformations env load_result = Inr summary"
  by (simp add: run_dbt_transformations_def split: option.splits)

lemma run_commands_test_failure:
  assumes "run [''dbt'', ''run''] = Inr 0"
    and "run [''dbt'', ''test''] = Inr returncode"
    and "run [''dbt'', ''docs'', ''generate''] = Inr 0"
  shows "run_commands run dbt_commands = None"
  using assms by (simp add: dbt_commands_def)

text \<open>
  Whatever the return code of \<^verbatim>\<open>dbt test\<close>, the stage goes on to the docs command, and
  when the other two commands succeed its summary says \<^verbatim>\<open>tests_passed = True\<close>.
\<close>

lemma run_dbt_transformations_tests_failed:
  assumes "chdir env (path_join (PROJECT_ROOT env) [''medical_warehouse'']) = None"
    and "subprocess_run env [''dbt'', ''run''] = Inr 0"
    and "subprocess_run env [''dbt'', ''test''] = Inr returncode"
    and "subprocess_run env [''dbt'', ''docs'', ''generate''] = Inr 0"
  shows "run_dbt_transformations env load_result =
           Inr [(''dbt_status'', PStr ''success''),
                (''loaded_records'', dict_get load_result ''loaded_records'' (PInt 0)),
                (''tests_passed'', PBool True)]"
  using assms by (simp add: run_dbt_transformations_def run_commands_test_failure)

text \<open>A failure of \<^verbatim>\<open>dbt run\<close> or of the docs command gives the failed summary.\<close>

lemma run_dbt_transformations_run_failed:
  assumes "chdir env (path_join (PROJECT_ROOT env) [''medical_warehouse'']) = None"
    and "subprocess_run env [''dbt'', ''run''] = Inr returncode" and "returncode \<noteq> 0"
  shows "run_dbt_transformations env load_result =
           Inr [(''dbt_status'', PStr ''failed''),
                (''loaded_records'', dict_get load_result ''loaded_records'' (PInt 0)),
                (''error'', PStr (''dbt command failed: '' @ repr_str_list [''dbt'', ''run''])),
                (''tests_passed'', PBool False)]"
  using assms
  by (simp add: run_dbt_transformations_def dbt_commands_def)

lemma run_dbt_transformations_docs_failed:
  assumes "chdir env (path_join (PROJECT_ROOT env) [''medical_warehouse'']) = None"
    and "subprocess_run env [''dbt'', ''run''] = Inr 0"
    and "subprocess_run env [''dbt'', ''test''] = Inr rc"
    and "subprocess_run env [''dbt'', ''docs'', ''generate''] = Inr returncode" and "returncode \<noteq> 0"
  shows "\<exists>msg. run_dbt_transformations env load_result =
           Inr [(''dbt_status'', PStr ''failed''),
                (''loaded_records'', dict_get load_result ''loaded_records'' (PInt 0)),
                (''error'', PStr msg),
                (''tests_passed'', PBool False)]"
  using assms
  by (simp add: run_dbt_transformations_def dbt_commands_def)

text \<open>
  Claim C4 at its failing input: \<^verbatim>\<open>dbt run\<close> and the docs command return 0 and
  \<^verbatim>\<open>dbt test\<close> returns 1. The stage proceeds, as the claim says, but its summary
  records \<^verbatim>\<open>tests_passed = True\<close>, where the claim says false.
\<close>

theorem run_dbt_transformations_failed_test_reported_passed:
  "run_dbt_transformations
     (idle_environment\<lparr>subprocess_run :=
        (\<lambda>cmd. if cmd = [''dbt'', ''test''] then Inr 1 else Inr 0)\<rparr>)
     [(''loaded_records'', PInt 8), (''status'', PStr ''success'')]
   = Inr [(''dbt_status'', PStr ''success''), (''loaded_records'', PInt 8),
          (''tests_passed'', PBool True)]"
  by (simp add: run_dbt_transformations_def idle_environment_def dbt_commands_def dict_get_def)

text \<open>An op whose first attempt returns is not run again.\<close>

lemma with_retries_first:
  "attempt k = Inr r \<Longrightarrow> with_retries n attempt k = Inr r"
  by (cases n) simp_all

lemma run_yolo_enrichment_returns:
  "\<exists>summary. run_yolo_enrichment env dbt_result = Inr summary"
  by (simp add: run_yolo_enrichment_def Let_def split: sum.splits)

lemma run_yolo_enrichment_skipped:
  assumes "\<not> HAS_YOLO env \<or>
           \<not> path_exists env (path_join (PROJECT_ROOT env) [''data'', ''raw'', ''images''])"
  shows "\<exists>reason. run_yolo_enrichment env dbt_result =
           Inr [(''detected_images'', PInt 0), (''yolo_status'', PStr ''skipped''),
                (''category_counts'', PDict []), (''error'', PStr reason)]"
  using assms by (auto simp: run_yolo_enrichment_def Let_def)

text \<open>A detector that is present and raises gives the failed summary, not the skipped one.\<close>

lemma run_yolo_enrichment_failed:
  assumes "HAS_YOLO env"
    and "path_exists env (path_join (PROJECT_ROOT env) [''data'', ''raw'', ''images''])"
    and "process_directory env (path_join (PROJECT_ROOT env) [''data'', ''raw'', ''images'']) = Inl e"
  shows "run_yolo_enrichment env dbt_result =
           Inr [(''detected_images'', PInt 0), (''yolo_status'', PStr ''failed''),
                (''category_counts'', PDict []), (''error'', PStr e)]"
  using assms by (simp add: run_yolo_enrichment_def Let_def enrich_body_def)

text \<open>
  The ops of the two job bodies: the first three ops of the main pipeline are the ops of
  the daily job.
\<close>

lemma medical_telegram_pipeline_ops_after_transform:
  "medical_telegram_pipeline_ops world =
     (case daily_scrape_job_ops world of
        Inl e \<Rightarrow> Inl e
      | Inr transformed \<Rightarrow>
          (case with_retries 2 (\<lambda>k. run_yolo_enrichment (world Enrich k) transformed) 0 of
             Inl e \<Rightarrow> Inl e
           | Inr enriched \<Rightarrow> start_fastapi (world Publish 0) enriched))"
  by (simp add: medical_telegram_pipeline_ops_def daily_scrape_job_ops_def split: sum.splits)

text \<open>
  The ops as the body wires them: when the first three ops have returned and the
  detector module is missing or the image directory does not exist, the Enrich op returns
  the skipped summary with no detection and the Publish op reports it.
\<close>

lemma enrich_skipped_ops_reach_publish:
  assumes "daily_scrape_job_ops world = Inr transformed"
    and "\<not> HAS_YOLO (world Enrich 0) \<or>
         \<not> path_exists (world Enrich 0)
             (path_join (PROJECT_ROOT (world Enrich 0)) [''data'', ''raw'', ''images''])"
  shows "\<exists>enriched published.
           run_yolo_enrichment (world Enrich 0) transformed = Inr enriched \<and>
           map_of enriched ''yolo_status'' = Some (PStr ''skipped'') \<and>
           map_of enriched ''detected_images'' = Some (PInt 0) \<and>
           medical_telegram_pipeline_ops world = Inr published \<and>
           map_of published ''api_status'' = Some (PStr ''ready'') \<and>
           map_of published ''yolo_status'' = Some (PStr ''skipped'') \<and>
           map_of published ''total_processed'' = Some (PInt 0)"
proof -
  from run_yolo_enrichment_skipped[OF assms(2), of transformed] obtain reason where
    enriched: "run_yolo_enrichment (world Enrich 0) transformed =
      Inr [(''detected_images'', PInt 0), (''yolo_status'', PStr ''skipped''),
           (''category_counts'', PDict []), (''error'', PStr reason)]"
    by blast
  let ?enriched = "[(''detected_images'', PInt 0), (''yolo_status'', PStr ''skipped''),
           (''category_counts'', PDict []), (''error'', PStr reason)]"
  have "with_retries 2 (\<lambda>k. run_yolo_enrichment (world Enrich k) transformed) 0 = Inr ?enriched"
    using enriched by (intro with_retries_first) simp
  then have "medical_telegram_pipeline_ops world = start_fastapi (world Publish 0) ?enriched"
    using assms(1) by (simp add: medical_telegram_pipeline_ops_after_transform)
  then show ?thesis
    using enriched by (simp add: start_fastapi_def dict_get_def)
qed

lemma with_retries_const: "with_retries n (\<lambda>k. Inr r) k0 = Inr r"
  by (rule with_retries_first) simp

lemma scrape_telegram_data_idle:
  "scrape_telegram_data (idle_environment\<lparr>HAS_YOLO := False\<rparr>) =
     Inr [(''scraped_files'', PInt 0),
          (''output_dir'', PStr ''/app/data/raw/telegram_messages''),
          (''file_list'', PList [])]"
  by (simp add: scrape_telegram_data_def idle_environment_def int_of_str_def py_strip_def
      py_isspace_def py_isdigit_def digit_val_def parse_numeral_def int_max_str_digits_def
      Let_def path_join_def path_join2_def)

lemma daily_scrape_job_ops_idle:
  "daily_scrape_job_ops (\<lambda>stage k. idle_environment\<lparr>HAS_YOLO := False\<rparr>) =
     Inr [(''dbt_status'', PStr ''success''), (''loaded_records'', PInt 0),
          (''tests_passed'', PBool True)]"
proof -
  let ?env = "idle_environment\<lparr>HAS_YOLO := False\<rparr>"
  let ?scraped = "[(''scraped_files'', PInt 0),
          (''output_dir'', PStr ''/app/data/raw/telegram_messages''),
          (''file_list'', PList [])]"
  let ?loaded = "[(''loaded_records'', PInt 0), (''status'', PStr ''no_files'')]"
  have load: "fst (load_raw_to_postgres ?env ?scraped) = Inr ?loaded"
    by (simp add: load_raw_to_postgres_def idle_environment_def)
  have transform: "run_dbt_transformations ?env ?loaded =
     Inr [(''dbt_status'', PStr ''success''), (''loaded_records'', PInt 0),
          (''tests_passed'', PBool True)]"
    by (simp add: run_dbt_transformations_def idle_environment_def dbt_commands_def dict_get_def)
  show ?thesis
    by (simp add: daily_scrape_job_ops_def scrape_telegram_data_idle with_retries_const load
        transform)
qed

lemma run_yolo_enrichment_idle:
  "run_yolo_enrichment (idle_environment\<lparr>HAS_YOLO := False\<rparr>) transformed =
     Inr [(''detected_images'', PInt 0), (''yolo_status'', PStr ''skipped''),
          (''category_counts'', PDict []), (''error'', PStr ''Module not found'')]"
  by (simp add: run_yolo_enrichment_def)

text \<open>The ops of the body in the example environment without the detector module.\<close>

lemma medical_telegram_pipeline_ops_idle:
  "medical_telegram_pipeline_ops (\<lambda>stage k. idle_environment\<lparr>HAS_YOLO := False\<rparr>) =
     Inr [(''api_status'', PStr ''ready''),
          (''endpoints'', PList [PStr ''GET /api/reports/top-products'',
                                 PStr ''GET /api/channels/{channel_name}/activity'',
                                 PStr ''GET /api/search/messages'',
                                 PStr ''GET /api/reports/visual-content'']),
          (''total_processed'', PInt 0), (''category_counts'', PDict []),
          (''yolo_status'', PStr ''skipped'')]"
  by (simp add: medical_telegram_pipeline_ops_after_transform daily_scrape_job_ops_idle
      with_retries_const run_yolo_enrichment_idle start_fastapi_def dict_get_def)

text \<open>No job of the module is defined: both bodies return the output of their last op.\<close>

lemma daily_scrape_job_refused:
  "daily_scrape_job world = Inl DagsterInvalidDefinitionError"
  by (simp add: daily_scrape_job_def job_def)

text \<open>
  Claim C6 at its failing input, the environment without the detector module. The Enrich
  op on its own returns the summary that the claim describes, with the status
  \<^verbatim>\<open>skipped\<close> under the key \<^verbatim>\<open>yolo_status\<close> and \<^verbatim>\<open>detected_images = 0\<close>. The
  pipeline does not reach the Publish stage: the function under \<^verbatim>\<open>@job\<close> ends in
  \<^verbatim>\<open>return api_started\<close>, the definition of the job is refused while the module is
  imported, and no stage of it ever runs.
\<close>

theorem medical_telegram_pipeline_refused:
  "run_yolo_enrichment (idle_environment\<lparr>HAS_YOLO := False\<rparr>)
     [(''dbt_status'', PStr ''success''), (''loaded_records'', PInt 0),
      (''tests_passed'', PBool True)]
     = Inr [(''detected_images'', PInt 0), (''yolo_status'', PStr ''skipped''),
            (''category_counts'', PDict []), (''error'', PStr ''Module not found'')] \<and>
   medical_telegram_pipeline (\<lambda>stage k. idle_environment\<lparr>HAS_YOLO := False\<rparr>)
     = Inl DagsterInvalidDefinitionError"
  by (simp add: run_yolo_enrichment_idle medical_telegram_pipeline_def job_def)

text \<open>The loop adds up what each file gives and visits the files in order.\<close>

lemma load_files_sum:
  "load_files env fs total_records visited =
     (total_records + sum_list (map (file_records env) fs), visited @ fs)"
  by (induction fs arbitrary: total_records visited)
     (simp_all add: file_records_def split: sum.splits)

lemma load_raw_to_postgres_visits_at_most_50:
  "length (snd (load_raw_to_postgres env scrape_result)) \<le> 50"
  by (simp add: load_raw_to_postgres_def load_files_sum Let_def
      split: option.splits pyval.splits)

text \<open>
  Claim C9. Every execution of the Load stage visits at most 50 files. When the stage
  comes to its loop (the loader module is present, the scrape summary counts at least one
  file and the connection opens), the files it visits are the first 50 JSON files found
  under the output directory; the summary has the status \<^verbatim>\<open>success\<close> and counts the
  records of those files only, so the records of any further file are not loaded and
  nothing reports it.
\<close>

theorem load_stage_first_50_files:
  "length (snd (load_raw_to_postgres env scrape_result)) \<le> 50 \<and>
   (HAS_LOADER env \<and> map_of scrape_result ''scraped_files'' = Some n \<and> \<not> py_eq_zero n \<and>
    map_of scrape_result ''output_dir'' = Some (PStr raw_dir) \<and> get_connection env = None
    \<longrightarrow> load_raw_to_postgres env scrape_result =
          (Inr [(''loaded_records'',
                   PInt (sum_list (map (file_records env) (take 50 (rglob_json env raw_dir))))),
                (''status'', PStr ''success'')],
           take 50 (rglob_json env raw_dir)))"
  by (simp add: load_raw_to_postgres_visits_at_most_50)
     (simp add: load_raw_to_postgres_def load_files_sum Let_def)

lemma take_json_names: "take 50 (json_names 51) = json_names 50"
  by (simp add: json_names_def take_map)

lemma length_json_names: "length (json_names n) = n"
  by (simp add: json_names_def)

text \<open>Claim C9 with 51 files of one record each: 50 records are loaded.\<close>

theorem load_stage_first_50_files_witness:
  "load_raw_to_postgres (idle_environment\<lparr>rglob_json := (\<lambda>d. json_names 51)\<rparr>)
     [(''scraped_files'', PInt 51), (''output_dir'', PStr ''/app/data/raw/telegram_messages''),
      (''file_list'', PList [])]
   = (Inr [(''loaded_records'', PInt 50), (''status'', PStr ''success'')], json_names 50)"
proof -
  let ?env = "idle_environment\<lparr>rglob_json := (\<lambda>d. json_names 51)\<rparr>"
  have one: "file_records ?env = (\<lambda>f. 1)"
    by (rule ext) (simp add: file_records_def idle_environment_def)
  have "sum_list (map (file_records ?env) (json_names 50)) = 50"
    by (simp add: one sum_list_triv length_json_names)
  with load_stage_first_50_files [of ?env "[(''scraped_files'', PInt 51),
      (''output_dir'', PStr ''/app/data/raw/telegram_messages''), (''file_list'', PList [])]"
      "PInt 51" "''/app/data/raw/telegram_messages''"]
  show ?thesis
    by (simp add: take_json_names) (simp add: idle_environment_def)
qed

end
